theory Spec2Isabelle
  imports Main "HOL-Library.AList" "HOL-Library.Sublist"
begin

section \<open>Python values shared by the two modules\<close>

text \<open>
  The exceptions the modelled code raises, catches or lets through. The \<open>except Exception\<close>
  clauses of \<open>message_queue_handler\<close> and \<open>ActorImpl.run\<close> catch every instance of
  \<open>Exception\<close>; \<open>SystemExit\<close> and \<open>KeyboardInterrupt\<close> derive from \<open>BaseException\<close> only and
  pass through them.
\<close>

datatype py_exception =
    TypeError string
  | AttributeError string
  | KeyError string
  | UnicodeDecodeError
  | RuntimeError string
  | SystemExit int
  | KeyboardInterrupt

fun is_Exception :: "py_exception \<Rightarrow> bool" where
  "is_Exception (SystemExit _) = False"
| "is_Exception KeyboardInterrupt = False"
| "is_Exception _ = True"

fun is_TypeError :: "py_exception \<Rightarrow> bool" where
  "is_TypeError (TypeError _) = True"
| "is_TypeError _ = False"

text \<open>Python's \<open>str.split(sep)\<close> for a one-character separator: never an empty list.\<close>

fun split :: "char \<Rightarrow> string \<Rightarrow> string list" where
  "split sep [] = [[]]"
| "split sep (c # cs) =
     (if c = sep then [] # split sep cs
      else (case split sep cs of
              [] \<Rightarrow> [[c]]
            | token # tokens \<Rightarrow> (c # token) # tokens))"

text \<open>Python's \<open>sep.join(strings)\<close>.\<close>

fun join :: "string \<Rightarrow> string list \<Rightarrow> string" where
  "join sep [] = []"
| "join sep [x] = x"
| "join sep (x # y # ys) = x @ sep @ join sep (y # ys)"

section \<open>framework.py: the process-wide state\<close>

type_synonym handler_id = nat

datatype connection_state = DISCONNECTED | TRANSPORT | REGISTRAR

text \<open>The calls made on the transport object \<open>public.message\<close>, in order.\<close>

datatype transport_call =
    Publish string string
  | Subscribe string
  | Unsubscribe string

text \<open>
  A parameter of a parsed payload: a string, or a nested list of parameters.
\<close>

datatype parameter = PStr string | PList "parameter list"

text \<open>
  The class attributes of \<open>private\<close> and \<open>public\<close> that the modelled functions read or
  write. \<open>message_handlers\<close> is the dict from topic to handler list (an association list in
  insertion order), \<open>message\<close> is \<open>None\<close> or the transport object, seen through the calls made
  on it, \<open>connection\<close> is the state held by \<open>public.connection\<close>, \<open>event_terminated\<close> records
  that \<open>event.terminate()\<close> was called.
\<close>

record aiko =
  exit_status :: int
  message_handlers :: "(string \<times> handler_id list) list"
  message_handlers_wildcard_topics :: "string list"
  registrar_handler :: "handler_id option"
  connection :: connection_state
  message :: "transport_call list option"
  protocol :: "string option"
  tags :: "string list"
  terminate_registrar_not_found :: bool
  topic_path :: string
  topic_path_registrar :: "parameter option"
  transport :: string
  event_terminated :: bool

text \<open>
  A function returns the exception it raised, if any, with the state as it is then: the
  assignments made before a \<open>raise\<close> stay.
\<close>

type_synonym 'a raising = "py_exception option \<times> 'a"

definition call_transport :: "transport_call \<Rightarrow> aiko \<Rightarrow> aiko" where
  "call_transport c s =
     (case message s of
        None \<Rightarrow> s
      | Some calls \<Rightarrow> s\<lparr>message := Some (calls @ [c])\<rparr>)"

section \<open>framework.py: registering and removing handlers\<close>

definition add_message_handler :: "handler_id \<Rightarrow> string \<Rightarrow> aiko \<Rightarrow> aiko" where
  "add_message_handler message_handler topic s =
     (let s1 = (if map_of (message_handlers s) topic = None
                then (let s0 = s\<lparr>message_handlers :=
                                  AList.update topic [] (message_handlers s)\<rparr>
                      in if CHR ''#'' \<in> set topic \<or> CHR ''+'' \<in> set topic
                         then s0\<lparr>message_handlers_wildcard_topics :=
                                  message_handlers_wildcard_topics s0 @ [topic]\<rparr>
                         else s0)
                else s);
          s2 = s1\<lparr>message_handlers :=
                   AList.update topic
                     (the (map_of (message_handlers s1) topic) @ [message_handler])
                     (message_handlers s1)\<rparr>
      in if message s2 \<noteq> None then call_transport (Subscribe topic) s2 else s2)"

text \<open>
  \<open>del private.message_handlers_wildcard_topics[topic]\<close> indexes a list with a string:
  Python raises \<open>TypeError\<close> there and the list keeps the topic.
\<close>

definition remove_message_handler :: "handler_id \<Rightarrow> string \<Rightarrow> aiko \<Rightarrow> aiko raising" where
  "remove_message_handler message_handler topic s =
     (case map_of (message_handlers s) topic of
        None \<Rightarrow> (None, s)
      | Some handlers \<Rightarrow>
          (let handlers1 = (if message_handler \<in> set handlers
                            then remove1 message_handler handlers else handlers);
               s1 = s\<lparr>message_handlers :=
                        AList.update topic handlers1 (message_handlers s)\<rparr>;
               s2 = (if length handlers1 = 0
                     then (let s' = s1\<lparr>message_handlers :=
                                        AList.delete topic (message_handlers s1)\<rparr>
                           in if message s' \<noteq> None
                              then call_transport (Unsubscribe topic) s' else s')
                     else s1)
           in if topic \<in> set (message_handlers_wildcard_topics s2)
              then (Some (TypeError ''list indices must be integers or slices, not str''), s2)
              else (None, s2)))"

section \<open>framework.py: topic matching\<close>

text \<open>
  The body of the loop over \<open>private.message_handlers_wildcard_topics\<close>: whether the
  wildcard topic is appended to \<open>topics_matched\<close>. Both token lists come from \<open>split\<close> and
  are not empty, so \<open>tokens[0]\<close> and \<open>tokens[-1]\<close> do not raise.
\<close>

definition wildcard_matches :: "string \<Rightarrow> string \<Rightarrow> bool" where
  "wildcard_matches topic wildcard_topic =
     (let tokens = split CHR ''/'' topic;
          wildcard_tokens = split CHR ''/'' wildcard_topic
      in if last wildcard_tokens = ''#''
         then butlast tokens = butlast wildcard_tokens
         else hd tokens = hd wildcard_tokens \<and> last tokens = last wildcard_tokens)"

fun topic_search_loop :: "string \<Rightarrow> string list \<Rightarrow> string list \<Rightarrow> string list" where
  "topic_search_loop topic [] topics_matched = topics_matched"
| "topic_search_loop topic (wildcard_topic # rest) topics_matched =
     topic_search_loop topic rest
       (if wildcard_matches topic wildcard_topic
        then topics_matched @ [wildcard_topic] else topics_matched)"

definition topic_search ::
  "aiko \<Rightarrow> string \<Rightarrow> (string \<times> handler_id list) list \<Rightarrow> string list" where
  "topic_search s topic topics =
     topic_search_loop topic (message_handlers_wildcard_topics s)
       (if map_of topics topic \<noteq> None then [topic] else [])"

section \<open>framework.py: dispatch of an inbound transport message\<close>

text \<open>
  An inbound message: its topic and its payload bytes, seen through what
  \<open>payload.decode("utf-8")\<close> makes of them.
\<close>

datatype payload = Utf8 string | NotUtf8

record mqtt_message =
  topic :: string
  payload :: payload

definition decode :: "payload \<Rightarrow> py_exception + string" where
  "decode p = (case p of Utf8 text \<Rightarrow> Inr text | NotUtf8 \<Rightarrow> Inl UnicodeDecodeError)"

text \<open>
  What a call of a handler does: it returns a value, read for its truth, or raises; it may
  change the process state on the way. The handlers are the callers' code, so their
  behaviour is a parameter of the dispatch.
\<close>

datatype outcome = Returned bool | Raised py_exception

type_synonym handler_call = "handler_id \<Rightarrow> aiko \<Rightarrow> string \<Rightarrow> string \<Rightarrow> outcome \<times> aiko"

text \<open>
  What a dispatch did: the handlers it invoked with their outcomes, in order, the
  exceptions whose trace it printed, the exception it let through, the state it left.
\<close>

record dispatch =
  invoked :: "(handler_id \<times> outcome) list"
  printed :: "py_exception list"
  raised :: "py_exception option"
  final :: aiko

text \<open>
  \<open>message_handler_list.extend(private.message_handlers[topic_match])\<close> for each matched
  topic: a matched topic with no entry in the dict is a \<open>KeyError\<close>.
\<close>

fun extend_handlers ::
  "(string \<times> handler_id list) list \<Rightarrow> string list \<Rightarrow> handler_id list
     \<Rightarrow> py_exception + handler_id list" where
  "extend_handlers handlers [] message_handler_list = Inr message_handler_list"
| "extend_handlers handlers (topic_match # rest) message_handler_list =
     (case map_of handlers topic_match of
        None \<Rightarrow> Inl (KeyError topic_match)
      | Some hs \<Rightarrow> extend_handlers handlers rest (message_handler_list @ hs))"

definition message_handler_list :: "aiko \<Rightarrow> string \<Rightarrow> py_exception + handler_id list" where
  "message_handler_list s topic_in =
     extend_handlers (message_handlers s)
       (topic_search s topic_in (message_handlers s)) []"

text \<open>
  The loop over \<open>message_handler_list\<close>: a true result returns from the dispatch, an
  \<open>Exception\<close> is printed and the loop goes on, any other exception leaves the loop.
\<close>

fun invoke_handlers ::
  "handler_call \<Rightarrow> handler_id list \<Rightarrow> string \<Rightarrow> string \<Rightarrow> aiko \<Rightarrow> dispatch" where
  "invoke_handlers call [] topic_in payload_in s =
     \<lparr>invoked = [], printed = [], raised = None, final = s\<rparr>"
| "invoke_handlers call (message_handler # rest) topic_in payload_in s =
     (case call message_handler s topic_in payload_in of
        (Returned result, s') \<Rightarrow>
          if result
          then \<lparr>invoked = [(message_handler, Returned result)], printed = [],
                raised = None, final = s'\<rparr>
          else (let d = invoke_handlers call rest topic_in payload_in s'
                in d\<lparr>invoked := (message_handler, Returned result) # invoked d\<rparr>)
      | (Raised exception, s') \<Rightarrow>
          if is_Exception exception
          then (let d = invoke_handlers call rest topic_in payload_in s'
                in d\<lparr>invoked := (message_handler, Raised exception) # invoked d,
                      printed := exception # printed d\<rparr>)
          else \<lparr>invoked = [(message_handler, Raised exception)], printed = [],
                raised = Some exception, final = s'\<rparr>)"

definition message_queue_handler :: "handler_call \<Rightarrow> mqtt_message \<Rightarrow> aiko \<Rightarrow> dispatch" where
  "message_queue_handler call msg s =
     (case decode (payload msg) of
        Inl exception \<Rightarrow> \<lparr>invoked = [], printed = [], raised = Some exception, final = s\<rparr>
      | Inr payload_in \<Rightarrow>
          (case message_handler_list s (topic msg) of
             Inl exception \<Rightarrow>
               \<lparr>invoked = [], printed = [], raised = Some exception, final = s\<rparr>
           | Inr handlers \<Rightarrow>
               if length handlers > 0
               then invoke_handlers call handlers (topic msg) payload_in s
               else \<lparr>invoked = [], printed = [], raised = None, final = s\<rparr>))"

text \<open>An outcome after which the loop invokes no further handler.\<close>

fun halts :: "outcome \<Rightarrow> bool" where
  "halts (Returned result) = result"
| "halts (Raised exception) = (\<not> is_Exception exception)"

text \<open>
  A reading of the loop that does not follow its control flow: the state left by calling
  the handlers of a list one after the other, each on the state the one before left, and
  the outcome of the handler at place \<open>i\<close> of the list when it is called on the state
  left by the handlers before it.
\<close>

fun state_after ::
  "handler_call \<Rightarrow> handler_id list \<Rightarrow> string \<Rightarrow> string \<Rightarrow> aiko \<Rightarrow> aiko" where
  "state_after call [] topic_in payload_in s = s"
| "state_after call (h # hs) topic_in payload_in s =
     state_after call hs topic_in payload_in (snd (call h s topic_in payload_in))"

definition outcome_at ::
  "handler_call \<Rightarrow> handler_id list \<Rightarrow> string \<Rightarrow> string \<Rightarrow> aiko \<Rightarrow> nat \<Rightarrow> outcome" where
  "outcome_at call hs topic_in payload_in s i =
     fst (call (hs ! i) (state_after call (take i hs) topic_in payload_in s) topic_in payload_in)"

section \<open>framework.py: the registrar protocol\<close>

text \<open>
  What \<open>on_registrar_message\<close> takes from outside \<open>framework.py\<close>: the payload parser
  \<open>parse\<close> of \<open>aiko_services.utilities\<close>, which returns the command and the list of
  its parameters, the user name \<open>get_username()\<close>, and the behaviour of the handler set by
  \<open>set_registrar_handler\<close>, called with \<open>public\<close>, the action and the registrar dict.
\<close>

type_synonym registrar = "(string \<times> parameter) list"

record environment =
  parse :: "string \<Rightarrow> string \<times> parameter list"
  get_username :: string
  registrar_handler_call ::
    "handler_id \<Rightarrow> aiko \<Rightarrow> parameter \<Rightarrow> registrar \<Rightarrow> outcome \<times> aiko"

text \<open>
  Modelled from the spec: \<open>Connection.update_state\<close> is not among the sources; the spec
  says the announcements "transition" the connection state, so it stores the new state.
\<close>

definition update_state :: "connection_state \<Rightarrow> aiko \<Rightarrow> aiko" where
  "update_state connection_state s = s\<lparr>connection := connection_state\<rparr>"

text \<open>
  Modelled from the spec: \<open>event.terminate\<close> is not among the sources; the spec says
  termination "stops the loop after the current handler returns", so the call is recorded
  in \<open>event_terminated\<close>, which the loop reads.
\<close>

definition event_terminate :: "aiko \<Rightarrow> aiko" where
  "event_terminate s = s\<lparr>event_terminated := True\<rparr>"

definition terminate :: "int \<Rightarrow> aiko \<Rightarrow> aiko" where
  "terminate status s = event_terminate (s\<lparr>exit_status := status\<rparr>)"

text \<open>Python's truth value of \<open>public.protocol\<close>: \<open>None\<close> and the empty string are false.\<close>

definition protocol_set :: "aiko \<Rightarrow> bool" where
  "protocol_set s = (case protocol s of None \<Rightarrow> False | Some p \<Rightarrow> p \<noteq> [])"

text \<open>Sequencing: the statements after a raise are not run.\<close>

definition and_then :: "'a raising \<Rightarrow> ('a \<Rightarrow> 'a raising) \<Rightarrow> 'a raising" where
  "and_then r f = (case r of (None, s) \<Rightarrow> f s | (Some exception, s) \<Rightarrow> (Some exception, s))"

text \<open>
  The branch \<open>if action == "started"\<close>. \<open>registrar["topic_path"] + "/in"\<close> raises
  \<open>TypeError\<close> when the parameter is a nested list, \<open>public.message.publish\<close> raises
  \<open>AttributeError\<close> while \<open>public.message\<close> is \<open>None\<close>.
\<close>

definition announce :: "environment \<Rightarrow> parameter \<Rightarrow> aiko \<Rightarrow> aiko raising" where
  "announce env registrar_topic_path s =
     (let tags_joined = join '' '' (tags s)
      in case registrar_topic_path of
           PList _ \<Rightarrow> (Some (TypeError ''can only concatenate list (not \"str\") to list''), s)
         | PStr path \<Rightarrow>
             (let topic_out = path @ ''/in'';
                  owner = get_username env;
                  payload_out = ''(add '' @ topic_path s @ '' '' @ the (protocol s) @ '' ''
                    @ transport s @ '' '' @ owner @ '' ('' @ tags_joined @ ''))''
              in case message s of
                   None \<Rightarrow>
                     (Some (AttributeError
                        ''NoneType object has no attribute publish''), s)
                 | Some _ \<Rightarrow> (None, call_transport (Publish topic_out payload_out) s)))"

definition started :: "environment \<Rightarrow> registrar \<Rightarrow> aiko \<Rightarrow> aiko raising" where
  "started env registrar s =
     (case map_of registrar ''topic_path'' of
        None \<Rightarrow> (Some (KeyError ''topic_path''), s)
      | Some registrar_topic_path \<Rightarrow>
          and_then
            (if protocol_set s then announce env registrar_topic_path s else (None, s))
            (\<lambda>s1. (None, update_state REGISTRAR
                            (s1\<lparr>topic_path_registrar := Some registrar_topic_path\<rparr>))))"

definition stopped :: "aiko \<Rightarrow> aiko raising" where
  "stopped s =
     (let s1 = update_state TRANSPORT (s\<lparr>topic_path_registrar := None\<rparr>)
      in if terminate_registrar_not_found s1 = True then (None, terminate 1 s1)
         else (None, s1))"

text \<open>The last two lines: the user's registrar handler, when one is set.\<close>

definition invoke_registrar_handler ::
  "environment \<Rightarrow> parameter \<Rightarrow> registrar \<Rightarrow> aiko \<Rightarrow> aiko raising" where
  "invoke_registrar_handler env action registrar s =
     (case registrar_handler s of
        None \<Rightarrow> (None, s)
      | Some handler \<Rightarrow>
          (case registrar_handler_call env handler s action registrar of
             (Returned handler_done, s') \<Rightarrow> (None, s')
           | (Raised exception, s') \<Rightarrow> (Some exception, s')))"

definition on_registrar_message ::
  "environment \<Rightarrow> aiko \<Rightarrow> string \<Rightarrow> string \<Rightarrow> aiko raising" where
  "on_registrar_message env s topic_in payload_in =
     (case parse env payload_in of (command, parameters) \<Rightarrow>
        (let action = (if length parameters > 0 then Some (parameters ! 0) else None);
             is_started = (length parameters > 0 \<and> command = ''primary''
                           \<and> length parameters = 3 \<and> action = Some (PStr ''started''));
             is_stopped = (length parameters > 0 \<and> command = ''primary''
                           \<and> length parameters = 1 \<and> action = Some (PStr ''stopped''));
             registrar = (if is_started
                          then [(''topic_path'', parameters ! 1),
                                (''timestamp'', parameters ! 2)]
                          else []);
             parse_okay = (is_started \<or> is_stopped)
         in if parse_okay
            then and_then
                   (and_then
                      (if action = Some (PStr ''started'')
                       then started env registrar s else (None, s))
                      (\<lambda>s1. if action = Some (PStr ''stopped'')
                             then stopped s1 else (None, s1)))
                   (invoke_registrar_handler env (the action) registrar)
            else (None, s)))"

section \<open>actor.py: Message.invoke\<close>

text \<open>
  A Python value as \<open>invoke\<close> tells values apart: \<open>None\<close>, a callable (a function or a
  bound method, true in a condition), or another object, with its truth value.
\<close>

datatype py_value = PyNone | Callable nat | Data bool

fun truthy :: "py_value \<Rightarrow> bool" where
  "truthy PyNone = False"
| "truthy (Callable _) = True"
| "truthy (Data b) = b"

datatype log_entry = Debug string | Error string | Traceback py_exception

text \<open>
  The state a call can reach: what the module's logger \<open>_LOGGER\<close> recorded, whether it is
  enabled for \<open>DEBUG\<close>, and everything else (\<open>world\<close>).
\<close>

record 'w runtime =
  log :: "log_entry list"
  debug_enabled :: bool
  world :: 'w

record py_object =
  attributes :: "(string \<times> py_value) list"
  str_of :: string

record 'a Message =
  target_object :: py_object
  command :: string
  arguments :: "'a list"
  target_function :: py_value

text \<open>
  Python's side of a call: \<open>str()\<close> of the argument list, and for each callable whether
  the arguments bind to its parameters, the text of the \<open>TypeError\<close> when they do not, and
  what its body does. Binding comes first: a call whose arguments do not bind raises
  \<open>TypeError\<close> before any statement of the body runs.
\<close>

record ('a, 'w) python =
  str_arguments :: "'a list \<Rightarrow> string"
  binds :: "nat \<Rightarrow> 'a list \<Rightarrow> bool"
  binding_error :: "nat \<Rightarrow> 'a list \<Rightarrow> string"
  body :: "nat \<Rightarrow> 'a list \<Rightarrow> 'w runtime \<Rightarrow> 'w runtime raising"

definition call_function ::
  "('a, 'w) python \<Rightarrow> nat \<Rightarrow> 'a list \<Rightarrow> 'w runtime \<Rightarrow> 'w runtime raising" where
  "call_function py f args rt =
     (if binds py f args then body py f args rt
      else (Some (TypeError (binding_error py f args)), rt))"

text \<open>\<open>Message.__repr__\<close>; \<open>text[1:-1]\<close> drops the first and the last character.\<close>

definition repr :: "('a, 'w) python \<Rightarrow> 'a Message \<Rightarrow> string" where
  "repr py m =
     ''Message: '' @ command m @ ''('' @ butlast (tl (str_arguments py (arguments m))) @ '')''"

definition debug_trace :: "('a, 'w) python \<Rightarrow> 'a Message \<Rightarrow> 'w runtime \<Rightarrow> 'w runtime" where
  "debug_trace py m rt =
     (if debug_enabled rt
      then rt\<lparr>log := log rt @ [Debug (''Message.invoke(): '' @ repr py m)]\<rparr>
      else rt)"

text \<open>
  The callable \<open>invoke\<close> settles on: the handler given to the message if it is true in a
  condition, else the attribute of the target named by the command; an
  \<open>AttributeError\<close> leaves the variable as it was.
\<close>

definition resolve :: "'a Message \<Rightarrow> py_value" where
  "resolve m =
     (if \<not> truthy (target_function m)
      then (case map_of (attributes (target_object m)) (command m) of
              None \<Rightarrow> target_function m
            | Some attribute \<Rightarrow> attribute)
      else target_function m)"

definition log_diagnostic :: "string option \<Rightarrow> 'w runtime \<Rightarrow> 'w runtime" where
  "log_diagnostic diagnostic rt =
     (case diagnostic of
        None \<Rightarrow> rt
      | Some text \<Rightarrow> if text \<noteq> [] then rt\<lparr>log := log rt @ [Error text]\<rparr> else rt)"

definition invoke :: "('a, 'w) python \<Rightarrow> 'a Message \<Rightarrow> 'w runtime \<Rightarrow> 'w runtime raising" where
  "invoke py m rt =
     (let rt1 = debug_trace py m rt
      in case resolve m of
           PyNone \<Rightarrow>
             (None, log_diagnostic
                (Some (repr py m @ '': Function not found in: '' @ str_of (target_object m)))
                rt1)
         | Callable f \<Rightarrow>
             (case call_function py f (arguments m) rt1 of
                (None, rt2) \<Rightarrow> (None, log_diagnostic None rt2)
              | (Some (TypeError type_error), rt2) \<Rightarrow>
                  (None, log_diagnostic (Some (repr py m @ '': '' @ type_error)) rt2)
              | (Some exception, rt2) \<Rightarrow> (Some exception, rt2))
         | Data _ \<Rightarrow>
             (None, log_diagnostic (Some (repr py m @ '': isn't callable'')) rt1))"

section \<open>actor.py: ActorImpl.run\<close>

datatype share_value = SBool bool | SStr string

record actor =
  share :: "(string \<times> share_value) list"

text \<open>
  \<open>aiko.process.run()\<close> is the event loop, not among the sources: a parameter, which may
  change the actor and the log and may raise.
\<close>

definition run ::
  "(actor runtime \<Rightarrow> actor runtime raising) \<Rightarrow> actor runtime \<Rightarrow> actor runtime raising" where
  "run process_run rt =
     (let rt1 = rt\<lparr>world := (world rt)\<lparr>share :=
                   AList.update ''running'' (SBool True) (share (world rt))\<rparr>\<rparr>
      in case process_run rt1 of
           (Some exception, rt2) \<Rightarrow>
             if is_Exception exception
             then (Some exception, rt2\<lparr>log := log rt2 @ [Traceback exception]\<rparr>)
             else (Some exception, rt2)
         | (None, rt2) \<Rightarrow>
             (None, rt2\<lparr>world := (world rt2)\<lparr>share :=
                      AList.update ''running'' (SBool False) (share (world rt2))\<rparr>\<rparr>))"

definition is_running :: "actor runtime \<Rightarrow> share_value option" where
  "is_running rt = map_of (share (world rt)) ''running''"

section \<open>The state at import and the spec's reading of a pattern\<close>

text \<open>
  The class attributes as \<open>framework.py\<close> initialises them; the topic path is built from
  the namespace, the host name and the process id, and the connection starts
  \<open>DISCONNECTED\<close>.
\<close>

definition initial :: "string \<Rightarrow> aiko" where
  "initial path =
     \<lparr>exit_status = 0, message_handlers = [], message_handlers_wildcard_topics = [],
      registrar_handler = None, connection = DISCONNECTED, message = None, protocol = None,
      tags = [], terminate_registrar_not_found = False, topic_path = path,
      topic_path_registrar = None, transport = ''mqtt'', event_terminated = False\<rparr>"

text \<open>
  Following the spec's words, not the code: a pattern with \<open>+\<close> matches a topic when both
  have the same number of segments and each pattern segment is \<open>+\<close> or equals the topic's
  segment at that place.
\<close>

definition single_level_match :: "string \<Rightarrow> string \<Rightarrow> bool" where
  "single_level_match pattern topic_in =
     list_all2 (\<lambda>p t. p = ''+'' \<or> p = t) (split CHR ''/'' pattern) (split CHR ''/'' topic_in)"

text \<open>
  Following the spec's words, not the code: the two registrar lifecycle payloads,
  \<open>(primary started <topic_path> <timestamp>)\<close> with a topic path and a timestamp, each
  one token, and \<open>(primary stopped)\<close>.
\<close>

fun stated_shape :: "string \<times> parameter list \<Rightarrow> bool" where
  "stated_shape (cmd, [PStr action, PStr path, PStr timestamp]) =
     (cmd = ''primary'' \<and> action = ''started'')"
| "stated_shape (cmd, [PStr action]) = (cmd = ''primary'' \<and> action = ''stopped'')"
| "stated_shape _ = False"

section \<open>Concrete inputs\<close>

text \<open>
  Two handlers on overlapping patterns: handler 1 registered first, on the wildcard
  pattern \<open>ns/+/y\<close>, handler 2 registered second, on the exact topic \<open>ns/x/y\<close>.
\<close>

definition overlapping :: aiko where
  "overlapping =
     add_message_handler 2 ''ns/x/y''
       (add_message_handler 1 ''ns/+/y'' (initial ''aiko/host/1''))"

text \<open>Two handlers on one topic, registered in the order 1, 2.\<close>

definition two_subscribers :: aiko where
  "two_subscribers =
     add_message_handler 2 ''ns/x/y''
       (add_message_handler 1 ''ns/x/y'' (initial ''aiko/host/1''))"

definition inbound :: mqtt_message where
  "inbound = \<lparr>topic = ''ns/x/y'', payload = Utf8 ''(hello)''\<rparr>"

text \<open>Handler 1 raises \<open>RuntimeError\<close>, every other handler returns \<open>False\<close>.\<close>

definition first_fails :: handler_call where
  "first_fails h s t p =
     (if h = 1 then (Raised (RuntimeError ''boom''), s) else (Returned False, s))"

text \<open>Handler 1 calls \<open>sys.exit(3)\<close>, every other handler returns \<open>False\<close>.\<close>

definition first_exits :: handler_call where
  "first_exits h s t p =
     (if h = 1 then (Raised (SystemExit 3), s) else (Returned False, s))"

text \<open>
  Environments whose parser reads the payloads \<open>(primary started reg/topic 12345)\<close>,
  \<open>(primary stopped)\<close> and \<open>(primary started reg/topic)\<close>.
\<close>

definition started_env :: environment where
  "started_env =
     \<lparr>parse = (\<lambda>payload_in.
        (''primary'', [PStr ''started'', PStr ''reg/topic'', PStr ''12345''])),
      get_username = ''andy'',
      registrar_handler_call = (\<lambda>h s action registrar. (Returned False, s))\<rparr>"

definition stopped_env :: environment where
  "stopped_env =
     \<lparr>parse = (\<lambda>payload_in. (''primary'', [PStr ''stopped''])),
      get_username = ''andy'',
      registrar_handler_call = (\<lambda>h s action registrar. (Returned False, s))\<rparr>"

definition other_env :: environment where
  "other_env =
     \<lparr>parse = (\<lambda>payload_in. (''primary'', [PStr ''started'', PStr ''reg/topic''])),
      get_username = ''andy'',
      registrar_handler_call = (\<lambda>h s action registrar. (Returned False, s))\<rparr>"

text \<open>
  An environment whose parser reads \<open>(primary started (reg topic) 12345)\<close>: a nested
  list stands where the topic path is expected.
\<close>

definition nested_env :: environment where
  "nested_env =
     \<lparr>parse = (\<lambda>payload_in.
        (''primary'', [PStr ''started'', PList [PStr ''reg'', PStr ''topic''], PStr ''12345''])),
      get_username = ''andy'',
      registrar_handler_call = (\<lambda>h s action registrar. (Returned False, s))\<rparr>"

text \<open>A connected process with its protocol set and no tags.\<close>

definition announcing :: aiko where
  "announcing = (initial ''aiko/host/1'')\<lparr>protocol := Some ''actor:0'', message := Some []\<rparr>"

text \<open>
  Callables numbered by the number of positional arguments they take: 0 raises
  \<open>RuntimeError\<close>, 2 counts and then raises \<open>TypeError\<close>, the others count and return.
\<close>

definition example_python :: "(string, nat) python" where
  "example_python =
     \<lparr>str_arguments = (\<lambda>args. ''['' @ join '', '' args @ '']''),
      binds = (\<lambda>f args. length args = f),
      binding_error = (\<lambda>f args. ''wrong number of positional arguments''),
      body = (\<lambda>f args rt.
        if f = 0 then (Some (RuntimeError ''boom''), rt)
        else if f = 2 then (Some (TypeError ''unsupported operand''), rt\<lparr>world := world rt + 1\<rparr>)
        else (None, rt\<lparr>world := world rt + 1\<rparr>))\<rparr>"

definition example_actor :: py_object where
  "example_actor =
     \<lparr>attributes = [(''test'', Callable 1), (''test_count'', Data True),
                    (''fail'', Callable 0), (''add'', Callable 2)],
      str_of = ''[actor]''\<rparr>"

definition post :: "string \<Rightarrow> string list \<Rightarrow> string Message" where
  "post name args =
     \<lparr>target_object = example_actor, command = name, arguments = args,
      target_function = PyNone\<rparr>"

definition quiet :: "nat runtime" where
  "quiet = \<lparr>log = [], debug_enabled = False, world = 0\<rparr>"

text \<open>An actor as \<open>ActorImpl.__init__\<close> leaves it.\<close>

definition ready :: "actor runtime" where
  "ready =
     \<lparr>log = [], debug_enabled = False,
      world = \<lparr>share = [(''lifecycle'', SStr ''ready''), (''log_level'', SStr ''INFO''),
                        (''running'', SBool False)]\<rparr>\<rparr>"

section \<open>Properties of topic matching\<close>

lemma split_not_Nil: "split sep str \<noteq> []"
  by (induction str) (auto split: list.splits)

lemma topic_search_loop_filter:
  "topic_search_loop topic_in wildcards matched =
     matched @ filter (wildcard_matches topic_in) wildcards"
  by (induction wildcards arbitrary: matched) auto

lemma topic_search_eq:
  "topic_search s topic_in topics =
     (if map_of topics topic_in \<noteq> None then [topic_in] else [])
       @ filter (wildcard_matches topic_in) (message_handlers_wildcard_topics s)"
  by (simp add: topic_search_def topic_search_loop_filter)

text \<open>A pattern ending in \<open>#\<close> only matches topics with as many segments as it has.\<close>

lemma wildcard_matches_hash_same_length:
  assumes "last (split CHR ''/'' pattern) = ''#''"
    and "wildcard_matches topic_in pattern"
  shows "length (split CHR ''/'' topic_in) = length (split CHR ''/'' pattern)"
proof -
  from assms have "butlast (split CHR ''/'' topic_in) = butlast (split CHR ''/'' pattern)"
    by (simp add: wildcard_matches_def Let_def)
  then have "length (split CHR ''/'' topic_in) - 1 = length (split CHR ''/'' pattern) - 1"
    by (metis length_butlast)
  moreover have "length (split CHR ''/'' topic_in) > 0" "length (split CHR ''/'' pattern) > 0"
    using split_not_Nil by auto
  ultimately show ?thesis by arith
qed

text \<open>
  C1. The claim: a pattern ending in \<open>#\<close> matches every topic whose leading segments are
  the pattern's segments before the \<open>#\<close>, however many segments follow, none included.
  The code compares the topic without its last segment with the pattern without its
  \<open>#\<close>, so the pattern \<open>ns/#\<close> matches neither \<open>ns/a/b/state\<close> nor \<open>ns\<close>: it matches
  the topics with exactly one segment after \<open>ns\<close>, such as \<open>ns/a\<close>.
\<close>

theorem topic_search_hash_one_level_only:
  "topic_search (add_message_handler 1 ''ns/#'' (initial ''aiko/host/1'')) ''ns/a/b/state''
     (message_handlers (add_message_handler 1 ''ns/#'' (initial ''aiko/host/1''))) = []
   \<and> topic_search (add_message_handler 1 ''ns/#'' (initial ''aiko/host/1'')) ''ns''
     (message_handlers (add_message_handler 1 ''ns/#'' (initial ''aiko/host/1''))) = []
   \<and> topic_search (add_message_handler 1 ''ns/#'' (initial ''aiko/host/1'')) ''ns/a''
     (message_handlers (add_message_handler 1 ''ns/#'' (initial ''aiko/host/1'')))
       = [''ns/#'']"
  by code_simp

text \<open>
  C2, as stated, fails: the registered pattern \<open>a/+/b\<close> is reported for the topic
  \<open>a/x/y/b\<close>, which has one segment more, and the registered pattern \<open>+/state\<close> is not
  reported for the topic \<open>ns/state\<close>.
\<close>

theorem topic_search_plus_counterexample:
  "''a/+/b'' \<in> set (topic_search (add_message_handler 1 ''a/+/b'' (initial ''aiko/host/1''))
       ''a/x/y/b''
       (message_handlers (add_message_handler 1 ''a/+/b'' (initial ''aiko/host/1''))))
   \<and> \<not> single_level_match ''a/+/b'' ''a/x/y/b''
   \<and> ''+/state'' \<notin> set (topic_search
       (add_message_handler 1 ''+/state'' (initial ''aiko/host/1'')) ''ns/state''
       (message_handlers (add_message_handler 1 ''+/state'' (initial ''aiko/host/1''))))
   \<and> single_level_match ''+/state'' ''ns/state''"
  by code_simp

text \<open>
  C2, amended: for every pattern of the wildcard list whose last segment is not \<open>#\<close> and
  every inbound topic, \<open>topic_search\<close> reports the pattern if and only if the first
  segment of the topic equals the first segment of the pattern and the last segment of the
  topic equals the last segment of the pattern. The segments in between and the number of
  segments are not compared, and a \<open>+\<close> in the first or last place is compared as a
  literal.
\<close>

theorem topic_search_plus_first_and_last:
  assumes "pattern \<in> set (message_handlers_wildcard_topics s)"
    and "last (split CHR ''/'' pattern) \<noteq> ''#''"
  shows "pattern \<in> set (topic_search s topic_in topics) \<longleftrightarrow>
           hd (split CHR ''/'' topic_in) = hd (split CHR ''/'' pattern)
           \<and> last (split CHR ''/'' topic_in) = last (split CHR ''/'' pattern)"
  using assms by (auto simp: topic_search_eq wildcard_matches_def Let_def)

theorem topic_search_plus_first_and_last_witness:
  "''ns/+/+/state'' \<in> set (message_handlers_wildcard_topics
       (add_message_handler 1 ''ns/+/+/state'' (initial ''aiko/host/1'')))
   \<and> last (split CHR ''/'' ''ns/+/+/state'') \<noteq> ''#''
   \<and> ''ns/+/+/state'' \<in> set (topic_search
       (add_message_handler 1 ''ns/+/+/state'' (initial ''aiko/host/1'')) ''ns/host/7/state''
       (message_handlers (add_message_handler 1 ''ns/+/+/state'' (initial ''aiko/host/1''))))
   \<and> hd (split CHR ''/'' ''ns/host/7/state'') = hd (split CHR ''/'' ''ns/+/+/state'')
   \<and> last (split CHR ''/'' ''ns/host/7/state'') = last (split CHR ''/'' ''ns/+/+/state'')"
proof -
  have in_list: "''ns/+/+/state'' \<in> set (message_handlers_wildcard_topics
       (add_message_handler 1 ''ns/+/+/state'' (initial ''aiko/host/1'')))"
    by code_simp
  have not_hash: "last (split CHR ''/'' ''ns/+/+/state'') \<noteq> ''#''"
    by code_simp
  have ends: "hd (split CHR ''/'' ''ns/host/7/state'') = hd (split CHR ''/'' ''ns/+/+/state'')
      \<and> last (split CHR ''/'' ''ns/host/7/state'') = last (split CHR ''/'' ''ns/+/+/state'')"
    by code_simp
  from topic_search_plus_first_and_last [OF in_list not_hash,
      of "''ns/host/7/state''"
         "message_handlers (add_message_handler 1 ''ns/+/+/state'' (initial ''aiko/host/1''))"]
    ends in_list not_hash
  show ?thesis by blast
qed

section \<open>Properties of removing a handler\<close>

text \<open>
  Whenever the topic has an entry and is in the wildcard list, the removal raises and the
  wildcard list is left as it was, whether handlers remain or not.
\<close>

lemma remove_message_handler_wildcard_always_raises:
  assumes "map_of (message_handlers s) t = Some hs"
    and "t \<in> set (message_handlers_wildcard_topics s)"
  shows "fst (remove_message_handler h t s)
           = Some (TypeError ''list indices must be integers or slices, not str'')
     \<and> message_handlers_wildcard_topics (snd (remove_message_handler h t s))
           = message_handlers_wildcard_topics s"
  using assms
  by (auto simp: remove_message_handler_def call_transport_def Let_def split: option.splits)

text \<open>
  C10. The claim: removing a handler of a wildcard pattern takes the pattern out of the
  wildcard list once its handler list is empty, without raising, and a pattern with
  handlers left stays in the list. The code deletes from the wildcard list with the topic
  as the index, which raises \<open>TypeError\<close> whenever the topic is in that list: after the
  only handler of \<open>ns/#\<close> is removed, the call has raised, the dict has no entry for
  the pattern and the wildcard list still holds it; with a second handler left, the call
  raises as well. For an exact topic the entry is deleted and the transport is told to
  unsubscribe, as claimed.
\<close>

theorem remove_message_handler_wildcard_raises:
  "remove_message_handler 1 ''ns/#''
     (add_message_handler 1 ''ns/#'' ((initial ''aiko/host/1'')\<lparr>message := Some []\<rparr>))
     = (Some (TypeError ''list indices must be integers or slices, not str''),
        (initial ''aiko/host/1'')
          \<lparr>message_handlers := [],
           message_handlers_wildcard_topics := [''ns/#''],
           message := Some [Subscribe ''ns/#'', Unsubscribe ''ns/#'']\<rparr>)
   \<and> fst (remove_message_handler 1 ''ns/#''
        (add_message_handler 2 ''ns/#''
          (add_message_handler 1 ''ns/#'' ((initial ''aiko/host/1'')\<lparr>message := Some []\<rparr>))))
     = Some (TypeError ''list indices must be integers or slices, not str'')
   \<and> remove_message_handler 1 ''ns/x''
     (add_message_handler 1 ''ns/x'' ((initial ''aiko/host/1'')\<lparr>message := Some []\<rparr>))
     = (None, (initial ''aiko/host/1'')
          \<lparr>message := Some [Subscribe ''ns/x'', Unsubscribe ''ns/x'']\<rparr>)"
  by code_simp

section \<open>Properties of the dispatch\<close>

lemma extend_handlers_concat:
  "extend_handlers handlers matched acc = Inr hs \<Longrightarrow>
     hs = acc @ concat (map (\<lambda>t. the (map_of handlers t)) matched)"
  by (induction matched arbitrary: acc) (fastforce split: option.splits)+

lemma message_handler_list_eq:
  assumes "message_handler_list s topic_in = Inr hs"
  shows "hs = concat (map (\<lambda>t. the (map_of (message_handlers s) t))
           ((if map_of (message_handlers s) topic_in \<noteq> None then [topic_in] else [])
            @ filter (wildcard_matches topic_in) (message_handlers_wildcard_topics s)))"
  using extend_handlers_concat [OF assms [unfolded message_handler_list_def]]
  by (simp add: topic_search_eq)

lemma message_queue_handler_decoded:
  assumes "payload msg = Utf8 payload_in"
    and "message_handler_list s (topic msg) = Inr hs"
  shows "message_queue_handler call msg s = invoke_handlers call hs (topic msg) payload_in s"
  using assms by (cases hs) (simp_all add: message_queue_handler_def decode_def)

lemma invoke_handlers_prefix:
  "prefix (map fst (invoked (invoke_handlers call hs topic_in payload_in s))) hs"
  by (induction hs arbitrary: s) (auto simp: Let_def split: prod.splits outcome.splits)

lemma invoke_handlers_earlier_go_on:
  "Suc i < length (invoked (invoke_handlers call hs topic_in payload_in s)) \<Longrightarrow>
     \<not> halts (snd (invoked (invoke_handlers call hs topic_in payload_in s) ! i))"
proof (induction hs arbitrary: s i)
  case Nil
  then show ?case by simp
next
  case (Cons h hs)
  then show ?case
    by (cases i) (auto simp: Let_def split: prod.splits outcome.splits if_splits)
qed

lemma invoke_handlers_short_halted:
  "length (invoked (invoke_handlers call hs topic_in payload_in s)) < length hs \<Longrightarrow>
     invoked (invoke_handlers call hs topic_in payload_in s) \<noteq> []
     \<and> halts (snd (last (invoked (invoke_handlers call hs topic_in payload_in s))))"
  by (induction hs arbitrary: s) (auto simp: Let_def split: prod.splits outcome.splits if_splits)

lemma invoke_handlers_raised:
  "raised (invoke_handlers call hs topic_in payload_in s) = Some e \<Longrightarrow> \<not> is_Exception e"
  by (induction hs arbitrary: s) (auto simp: Let_def split: prod.splits outcome.splits if_splits)

lemma invoke_handlers_printed_mem:
  "(h, Raised e) \<in> set (invoked (invoke_handlers call hs topic_in payload_in s)) \<Longrightarrow>
   is_Exception e \<Longrightarrow> e \<in> set (printed (invoke_handlers call hs topic_in payload_in s))"
  by (induction hs arbitrary: s) (auto simp: Let_def split: prod.splits outcome.splits if_splits)




lemma outcome_at_0: "outcome_at call (h # hs) t p s 0 = fst (call h s t p)"
  by (simp add: outcome_at_def)

lemma outcome_at_Suc:
  "outcome_at call (h # hs) t p s (Suc i) = outcome_at call hs t p (snd (call h s t p)) i"
  by (simp add: outcome_at_def)

lemma invoke_handlers_reached:
  "i < length (invoked (invoke_handlers call hs t p s)) \<longleftrightarrow>
     i < length hs \<and> (\<forall>j<i. \<not> halts (outcome_at call hs t p s j))"
proof (induction hs arbitrary: s i)
  case Nil
  then show ?case by simp
next
  case (Cons h hs)
  show ?case
  proof (cases i)
    case 0
    then show ?thesis
      by (auto simp: Let_def split: prod.splits outcome.splits)
  next
    case (Suc k)
    obtain out s' where c: "call h s t p = (out, s')" by (cases "call h s t p")
    show ?thesis
    proof (cases "halts out")
      case True
      with c Suc show ?thesis
        by (cases out) (auto simp: outcome_at_0 Let_def All_less_Suc2)
    next
      case False
      with c Suc Cons.IH [of k s'] show ?thesis
        by (cases out) (auto simp: outcome_at_0 outcome_at_Suc Let_def All_less_Suc2)
    qed
  qed
qed

lemma invoke_handlers_nth:
  "i < length (invoked (invoke_handlers call hs t p s)) \<Longrightarrow>
     invoked (invoke_handlers call hs t p s) ! i = (hs ! i, outcome_at call hs t p s i)"
proof (induction hs arbitrary: s i)
  case Nil
  then show ?case by simp
next
  case (Cons h hs)
  obtain out s' where c: "call h s t p = (out, s')" by (cases "call h s t p")
  show ?case
  proof (cases i)
    case 0
    with c show ?thesis
      by (cases out) (auto simp: outcome_at_0 Let_def)
  next
    case (Suc k)
    with c Cons.prems Cons.IH [of k s'] show ?thesis
      by (cases out) (auto simp: outcome_at_Suc Let_def split: if_splits)
  qed
qed

lemma invoke_handlers_final:
  "final (invoke_handlers call hs t p s) =
     state_after call (take (length (invoked (invoke_handlers call hs t p s))) hs) t p s"
  by (induction hs arbitrary: s) (auto simp: Let_def split: prod.splits outcome.splits)

lemma invoke_handlers_raised_None:
  "\<forall>j<length hs. \<not> halts (outcome_at call hs t p s j) \<Longrightarrow>
     raised (invoke_handlers call hs t p s) = None"
proof (induction hs arbitrary: s)
  case Nil
  then show ?case by simp
next
  case (Cons h hs)
  obtain out s' where c: "call h s t p = (out, s')" by (cases "call h s t p")
  from Cons.prems have h0: "\<not> halts out"
    and rest: "\<forall>j<length hs. \<not> halts (outcome_at call hs t p s' j)"
    using c by (auto simp: All_less_Suc2 outcome_at_0 outcome_at_Suc)
  from Cons.IH [OF rest] h0 c show ?case
    by (cases out) (auto simp: Let_def)
qed




section \<open>Properties of the registrar protocol\<close>

lemma length_three: "length xs = 3 \<Longrightarrow> xs = [xs ! 0, xs ! 1, xs ! 2]"
  by (cases xs; cases "tl xs"; cases "tl (tl xs)") auto

lemma length_one: "length xs = Suc 0 \<Longrightarrow> xs = [xs ! 0]"
  by (cases xs) auto

text \<open>
  C3: when the payload parses to the command \<open>primary\<close> with the three parameters
  \<open>started\<close>, a topic path and a timestamp, the protocol is set (true in a condition) and
  the transport object exists, \<open>on_registrar_message\<close> publishes
  \<open>(add <topic_path> <protocol> <transport> <owner> (<tags>))\<close> to the registrar's topic
  path followed by \<open>/in\<close>, records the registrar's topic path and sets the connection state
  to \<open>REGISTRAR\<close>; the user's registrar handler, when one is set, is called on that state
  afterwards.
\<close>

theorem on_registrar_message_started:
  assumes "parse env payload_in
             = (''primary'', [PStr ''started'', PStr registrar_path, timestamp])"
    and "protocol s = Some p" and "p \<noteq> []"
    and "message s = Some calls"
  shows "on_registrar_message env s topic_in payload_in =
     invoke_registrar_handler env (PStr ''started'')
       [(''topic_path'', PStr registrar_path), (''timestamp'', timestamp)]
       (s\<lparr>message := Some (calls @ [Publish (registrar_path @ ''/in'')
             (''(add '' @ topic_path s @ '' '' @ p @ '' '' @ transport s @ '' ''
                @ get_username env @ '' ('' @ join '' '' (tags s) @ ''))'')]),
          topic_path_registrar := Some (PStr registrar_path),
          connection := REGISTRAR\<rparr>)"
  using assms
  by (simp add: on_registrar_message_def started_def announce_def protocol_set_def
      and_then_def call_transport_def update_state_def Let_def)

theorem on_registrar_message_started_witness:
  "on_registrar_message started_env announcing ''aiko/service/registrar''
       ''(primary started reg/topic 12345)''
     = (None, announcing
          \<lparr>message := Some [Publish ''reg/topic/in'' ''(add aiko/host/1 actor:0 mqtt andy ())''],
           topic_path_registrar := Some (PStr ''reg/topic''),
           connection := REGISTRAR\<rparr>)"
  using on_registrar_message_started [of started_env "''(primary started reg/topic 12345)''"
      "''reg/topic''" "PStr ''12345''" announcing "''actor:0''" "[]" "''aiko/service/registrar''"]
  by (simp add: started_env_def announcing_def initial_def invoke_registrar_handler_def)

text \<open>
  C4: when the payload parses to the command \<open>primary\<close> with the single parameter
  \<open>stopped\<close>, \<open>on_registrar_message\<close> clears the recorded registrar topic path and sets
  the connection state to \<open>TRANSPORT\<close>; with \<open>terminate_registrar_not_found\<close> true it also
  stores the exit status 1 and asks the event loop to terminate, with the flag false the
  exit status and the loop are left as they were. The user's registrar handler, when one
  is set, is called on that state afterwards.
\<close>

theorem on_registrar_message_stopped:
  assumes "parse env payload_in = (''primary'', [PStr ''stopped''])"
  shows "on_registrar_message env s topic_in payload_in =
     invoke_registrar_handler env (PStr ''stopped'') []
       (if terminate_registrar_not_found s
        then s\<lparr>topic_path_registrar := None, connection := TRANSPORT,
               exit_status := 1, event_terminated := True\<rparr>
        else s\<lparr>topic_path_registrar := None, connection := TRANSPORT\<rparr>)"
  using assms
  by (simp add: on_registrar_message_def stopped_def terminate_def event_terminate_def
      and_then_def update_state_def Let_def)

theorem on_registrar_message_stopped_witness:
  "on_registrar_message stopped_env (announcing\<lparr>connection := REGISTRAR\<rparr>)
       ''aiko/service/registrar'' ''(primary stopped)''
     = (None, announcing\<lparr>connection := TRANSPORT\<rparr>)
   \<and> on_registrar_message stopped_env
       (announcing\<lparr>connection := REGISTRAR, terminate_registrar_not_found := True\<rparr>)
       ''aiko/service/registrar'' ''(primary stopped)''
     = (None, announcing\<lparr>connection := TRANSPORT, terminate_registrar_not_found := True,
          exit_status := 1, event_terminated := True\<rparr>)"
  using on_registrar_message_stopped [of stopped_env "''(primary stopped)''"
      "announcing\<lparr>connection := REGISTRAR\<rparr>" "''aiko/service/registrar''"]
    on_registrar_message_stopped [of stopped_env "''(primary stopped)''"
      "announcing\<lparr>connection := REGISTRAR, terminate_registrar_not_found := True\<rparr>"
      "''aiko/service/registrar''"]
  by (simp add: stopped_env_def announcing_def initial_def invoke_registrar_handler_def)

text \<open>
  C5, as stated, fails: the payload \<open>(primary started (reg topic) 12345)\<close> is neither
  of the two stated shapes, since a list stands in the place of the topic path, and it is
  not ignored. The code checks the command, the number of parameters and the action only:
  with the protocol set the announcement raises \<open>TypeError\<close>, without it the list is
  recorded as the registrar topic path and the connection state becomes \<open>REGISTRAR\<close>.
\<close>

theorem on_registrar_message_nested_list_counterexample:
  "\<not> stated_shape (parse nested_env ''(primary started (reg topic) 12345)'')
   \<and> on_registrar_message nested_env announcing ''aiko/service/registrar''
        ''(primary started (reg topic) 12345)''
      = (Some (TypeError ''can only concatenate list (not \"str\") to list''), announcing)
   \<and> on_registrar_message nested_env (initial ''aiko/host/1'') ''aiko/service/registrar''
        ''(primary started (reg topic) 12345)''
      = (None, (initial ''aiko/host/1'')
           \<lparr>topic_path_registrar := Some (PList [PStr ''reg'', PStr ''topic'']),
            connection := REGISTRAR\<rparr>)"
  by (simp add: nested_env_def on_registrar_message_def started_def announce_def
      protocol_set_def and_then_def update_state_def invoke_registrar_handler_def
      announcing_def initial_def Let_def)

text \<open>
  C5, amended: for every payload that parses neither to \<open>primary\<close> with exactly three
  parameters of which the first is \<open>started\<close> (whatever the other two are, strings or
  lists) nor to \<open>primary\<close> with the single parameter \<open>stopped\<close>,
  \<open>on_registrar_message\<close> returns without raising and leaves the whole state as it was:
  nothing is published, no state is stored, and the registrar handler, whatever it would
  do, is not called.
\<close>

theorem on_registrar_message_ignores:
  assumes "\<forall>path timestamp.
             parse env payload_in \<noteq> (''primary'', [PStr ''started'', path, timestamp])"
    and "parse env payload_in \<noteq> (''primary'', [PStr ''stopped''])"
  shows "on_registrar_message env s topic_in payload_in = (None, s)"
proof -
  obtain cmd ps where p: "parse env payload_in = (cmd, ps)"
    by (cases "parse env payload_in")
  have a: "\<not> (cmd = ''primary'' \<and> length ps = 3 \<and> ps ! 0 = PStr ''started'')"
  proof
    assume h: "cmd = ''primary'' \<and> length ps = 3 \<and> ps ! 0 = PStr ''started''"
    then have "ps = [PStr ''started'', ps ! 1, ps ! 2]"
      using length_three [of ps] by simp
    with h p assms(1) show False by metis
  qed
  have b: "\<not> (cmd = ''primary'' \<and> length ps = 1 \<and> ps ! 0 = PStr ''stopped'')"
  proof
    assume h: "cmd = ''primary'' \<and> length ps = 1 \<and> ps ! 0 = PStr ''stopped''"
    then have "ps = [PStr ''stopped'']"
      using length_one [of ps] by simp
    with h p assms(2) show False by metis
  qed
  from a b show ?thesis
    by (auto simp: on_registrar_message_def p Let_def)
qed

theorem on_registrar_message_ignores_witness:
  "on_registrar_message other_env (announcing\<lparr>registrar_handler := Some 7\<rparr>)
       ''aiko/service/registrar'' ''(primary started reg/topic)''
     = (None, announcing\<lparr>registrar_handler := Some 7\<rparr>)"
  using on_registrar_message_ignores [of other_env "''(primary started reg/topic)''"
      "announcing\<lparr>registrar_handler := Some 7\<rparr>" "''aiko/service/registrar''"]
  by (simp add: other_env_def)

section \<open>Properties of Message.invoke\<close>

lemma repr_not_empty: "repr py m \<noteq> []"
  by (simp add: repr_def)

text \<open>
  C6, as stated, fails: the \<open>except TypeError\<close> clause covers the whole call, so a
  \<open>TypeError\<close> raised inside the body of a callable whose arguments did bind is
  swallowed as well. The callable \<open>add\<close> counts and then raises \<open>TypeError\<close>:
  \<open>invoke\<close> returns normally, the count stays changed and the diagnostic is logged. The
  failure neither propagates nor is it free of other side effects.
\<close>

theorem invoke_type_error_in_body_counterexample:
  "resolve (post ''add'' [''1'', ''2'']) = Callable 2
   \<and> binds example_python 2 [''1'', ''2'']
   \<and> body example_python 2 [''1'', ''2''] quiet
        = (Some (TypeError ''unsupported operand''), quiet\<lparr>world := 1\<rparr>)
   \<and> invoke example_python (post ''add'' [''1'', ''2'']) quiet
        = (None, quiet\<lparr>world := 1,
             log := [Error ''Message: add(1, 2): unsupported operand'']\<rparr>)"
  by (simp add: resolve_def post_def example_actor_def example_python_def invoke_def
      call_function_def debug_trace_def log_diagnostic_def repr_def quiet_def Let_def)

text \<open>
  C6, amended: \<open>invoke\<close> does not raise for a command that is not found on the target,
  for a resolved attribute that is not callable, or for a \<open>TypeError\<close> from the call,
  whether the arguments do not bind to the callable's parameters or the body raises it.
  Each case appends exactly one error-level diagnostic to the log (after the debug line
  that every \<open>invoke\<close> writes when the logger is enabled for \<open>DEBUG\<close>). In the first
  three cases no body has run and nothing else changes; for a \<open>TypeError\<close> raised inside
  the body the state is the one the body left. The callable is called once: when its body
  returns, the state is the body's, and no result is returned; when its body raises
  anything but a \<open>TypeError\<close>, that exception leaves \<open>invoke\<close>.
\<close>

theorem invoke_resolution_failures:
  "(target_function m = PyNone \<and> map_of (attributes (target_object m)) (command m) = None \<longrightarrow>
      invoke py m rt =
        (None, (debug_trace py m rt)\<lparr>log := log (debug_trace py m rt)
           @ [Error (repr py m @ '': Function not found in: '' @ str_of (target_object m))]\<rparr>))
   \<and> (\<forall>b. resolve m = Data b \<longrightarrow>
      invoke py m rt =
        (None, (debug_trace py m rt)\<lparr>log := log (debug_trace py m rt)
           @ [Error (repr py m @ '': isn't callable'')]\<rparr>))
   \<and> (\<forall>f. resolve m = Callable f \<and> \<not> binds py f (arguments m) \<longrightarrow>
      invoke py m rt =
        (None, (debug_trace py m rt)\<lparr>log := log (debug_trace py m rt)
           @ [Error (repr py m @ '': '' @ binding_error py f (arguments m))]\<rparr>))
   \<and> (\<forall>f type_error rt'. resolve m = Callable f \<and> binds py f (arguments m)
         \<and> body py f (arguments m) (debug_trace py m rt) = (Some (TypeError type_error), rt') \<longrightarrow>
      invoke py m rt = (None, rt'\<lparr>log := log rt' @ [Error (repr py m @ '': '' @ type_error)]\<rparr>))
   \<and> (\<forall>f e rt'. resolve m = Callable f \<and> binds py f (arguments m)
         \<and> body py f (arguments m) (debug_trace py m rt) = (Some e, rt')
         \<and> \<not> is_TypeError e \<longrightarrow>
      invoke py m rt = (Some e, rt'))
   \<and> (\<forall>f rt'. resolve m = Callable f \<and> binds py f (arguments m)
         \<and> body py f (arguments m) (debug_trace py m rt) = (None, rt') \<longrightarrow>
      invoke py m rt = (None, rt'))"
proof (intro conjI allI impI)
  assume "target_function m = PyNone \<and> map_of (attributes (target_object m)) (command m) = None"
  then have "resolve m = PyNone"
    by (simp add: resolve_def)
  then show "invoke py m rt =
        (None, (debug_trace py m rt)\<lparr>log := log (debug_trace py m rt)
           @ [Error (repr py m @ '': Function not found in: '' @ str_of (target_object m))]\<rparr>)"
    by (simp add: invoke_def log_diagnostic_def repr_not_empty Let_def)
next
  fix b assume "resolve m = Data b"
  then show "invoke py m rt =
        (None, (debug_trace py m rt)\<lparr>log := log (debug_trace py m rt)
           @ [Error (repr py m @ '': isn't callable'')]\<rparr>)"
    by (simp add: invoke_def log_diagnostic_def repr_not_empty Let_def)
next
  fix f assume "resolve m = Callable f \<and> \<not> binds py f (arguments m)"
  then show "invoke py m rt =
        (None, (debug_trace py m rt)\<lparr>log := log (debug_trace py m rt)
           @ [Error (repr py m @ '': '' @ binding_error py f (arguments m))]\<rparr>)"
    by (simp add: invoke_def log_diagnostic_def repr_not_empty call_function_def Let_def)
next
  fix f type_error rt'
  assume "resolve m = Callable f \<and> binds py f (arguments m)
         \<and> body py f (arguments m) (debug_trace py m rt) = (Some (TypeError type_error), rt')"
  then show "invoke py m rt
      = (None, rt'\<lparr>log := log rt' @ [Error (repr py m @ '': '' @ type_error)]\<rparr>)"
    by (simp add: invoke_def log_diagnostic_def repr_not_empty call_function_def Let_def)
next
  fix f e rt'
  assume "resolve m = Callable f \<and> binds py f (arguments m)
         \<and> body py f (arguments m) (debug_trace py m rt) = (Some e, rt')
         \<and> \<not> is_TypeError e"
  then show "invoke py m rt = (Some e, rt')"
    by (cases e) (simp_all add: invoke_def call_function_def Let_def)
next
  fix f rt'
  assume "resolve m = Callable f \<and> binds py f (arguments m)
         \<and> body py f (arguments m) (debug_trace py m rt) = (None, rt')"
  then show "invoke py m rt = (None, rt')"
    by (simp add: invoke_def call_function_def log_diagnostic_def Let_def)
qed

theorem invoke_resolution_failures_witness:
  "invoke example_python (post ''missing'' []) quiet
     = (None, quiet\<lparr>log := [Error ''Message: missing(): Function not found in: [actor]'']\<rparr>)
   \<and> invoke example_python (post ''test_count'' []) quiet
     = (None, quiet\<lparr>log := [Error ''Message: test_count(): isn't callable'']\<rparr>)
   \<and> invoke example_python (post ''test'' []) quiet
     = (None, quiet\<lparr>log :=
          [Error ''Message: test(): wrong number of positional arguments'']\<rparr>)
   \<and> invoke example_python (post ''add'' [''1'', ''2'']) quiet
     = (None, quiet\<lparr>world := 1,
          log := [Error ''Message: add(1, 2): unsupported operand'']\<rparr>)
   \<and> invoke example_python (post ''fail'' []) quiet = (Some (RuntimeError ''boom''), quiet)
   \<and> invoke example_python (post ''test'' [''1'']) quiet = (None, quiet\<lparr>world := 1\<rparr>)"
proof -
  have r1: "target_function (post ''missing'' []) = PyNone
      \<and> map_of (attributes (target_object (post ''missing'' []))) (command (post ''missing'' []))
          = None"
    by (simp add: post_def example_actor_def)
  have r2: "resolve (post ''test_count'' []) = Data True"
    by (simp add: resolve_def post_def example_actor_def)
  have r3: "resolve (post ''test'' []) = Callable 1
      \<and> \<not> binds example_python 1 (arguments (post ''test'' []))"
    by (simp add: resolve_def post_def example_actor_def example_python_def)
  have r4: "resolve (post ''add'' [''1'', ''2'']) = Callable 2
      \<and> binds example_python 2 (arguments (post ''add'' [''1'', ''2'']))
      \<and> body example_python 2 (arguments (post ''add'' [''1'', ''2'']))
           (debug_trace example_python (post ''add'' [''1'', ''2'']) quiet)
          = (Some (TypeError ''unsupported operand''), quiet\<lparr>world := 1\<rparr>)"
    by (simp add: resolve_def post_def example_actor_def example_python_def debug_trace_def
        quiet_def)
  have r5: "resolve (post ''fail'' []) = Callable 0
      \<and> binds example_python 0 (arguments (post ''fail'' []))
      \<and> body example_python 0 (arguments (post ''fail'' []))
           (debug_trace example_python (post ''fail'' []) quiet)
          = (Some (RuntimeError ''boom''), quiet)
      \<and> \<not> is_TypeError (RuntimeError ''boom'')"
    by (simp add: resolve_def post_def example_actor_def example_python_def debug_trace_def
        quiet_def)
  have r6: "resolve (post ''test'' [''1'']) = Callable 1
      \<and> binds example_python 1 (arguments (post ''test'' [''1'']))
      \<and> body example_python 1 (arguments (post ''test'' [''1'']))
           (debug_trace example_python (post ''test'' [''1'']) quiet)
          = (None, quiet\<lparr>world := 1\<rparr>)"
    by (simp add: resolve_def post_def example_actor_def example_python_def debug_trace_def
        quiet_def)
  have t: "debug_trace example_python m quiet = quiet" for m
    by (simp add: debug_trace_def quiet_def)
  have l: "log quiet = []"
    by (simp add: quiet_def)
  have s1: "repr example_python (post ''missing'' []) = ''Message: missing()''"
    by (simp add: repr_def post_def example_python_def)
  have s2: "repr example_python (post ''test_count'' []) = ''Message: test_count()''"
    by (simp add: repr_def post_def example_python_def)
  have s3: "repr example_python (post ''test'' []) = ''Message: test()''"
    by (simp add: repr_def post_def example_python_def)
  have s4: "repr example_python (post ''add'' [''1'', ''2'']) = ''Message: add(1, 2)''"
    by (simp add: repr_def post_def example_python_def)
  have o: "str_of (target_object (post ''missing'' [])) = ''[actor]''"
    by (simp add: post_def example_actor_def)
  have b: "binding_error example_python f args = ''wrong number of positional arguments''"
    for f args
    by (simp add: example_python_def)
  note claim = invoke_resolution_failures
  have c1: "invoke example_python (post ''missing'' []) quiet
     = (None, quiet\<lparr>log := [Error ''Message: missing(): Function not found in: [actor]'']\<rparr>)"
    using claim [of "post ''missing'' []" example_python quiet,
        THEN conjunct1, rule_format, OF r1]
    by (simp add: t l s1 o)
  have c2: "invoke example_python (post ''test_count'' []) quiet
     = (None, quiet\<lparr>log := [Error ''Message: test_count(): isn't callable'']\<rparr>)"
    using claim [of "post ''test_count'' []" example_python quiet,
        THEN conjunct2, THEN conjunct1, rule_format, OF r2]
    by (simp add: t l s2)
  have c3: "invoke example_python (post ''test'' []) quiet
     = (None, quiet\<lparr>log :=
          [Error ''Message: test(): wrong number of positional arguments'']\<rparr>)"
    using claim [of "post ''test'' []" example_python quiet,
        THEN conjunct2, THEN conjunct2, THEN conjunct1, rule_format, OF r3]
    by (simp add: t l s3 b)
  have c4: "invoke example_python (post ''add'' [''1'', ''2'']) quiet
     = (None, quiet\<lparr>world := 1,
          log := [Error ''Message: add(1, 2): unsupported operand'']\<rparr>)"
    using claim [of "post ''add'' [''1'', ''2'']" example_python quiet,
        THEN conjunct2, THEN conjunct2, THEN conjunct2, THEN conjunct1, rule_format, OF r4]
    by (simp add: l s4 quiet_def)
  have c5: "invoke example_python (post ''fail'' []) quiet = (Some (RuntimeError ''boom''), quiet)"
    using claim [of "post ''fail'' []" example_python quiet,
        THEN conjunct2, THEN conjunct2, THEN conjunct2, THEN conjunct2, THEN conjunct1,
        rule_format, OF r5] .
  have c6: "invoke example_python (post ''test'' [''1'']) quiet = (None, quiet\<lparr>world := 1\<rparr>)"
    using claim [of "post ''test'' [''1'']" example_python quiet,
        THEN conjunct2, THEN conjunct2, THEN conjunct2, THEN conjunct2, THEN conjunct2,
        rule_format, OF r6] .
  from c1 c2 c3 c4 c5 c6 show ?thesis by blast
qed

section \<open>Properties of ActorImpl.run\<close>

text \<open>When the loop raises, \<open>run\<close> leaves \<open>running\<close> as the loop left it.\<close>

lemma run_exception_keeps_running:
  assumes "process_run (rt\<lparr>world := (world rt)\<lparr>share :=
             AList.update ''running'' (SBool True) (share (world rt))\<rparr>\<rparr>) = (Some e, rt2)"
  shows "fst (run process_run rt) = Some e \<and> is_running (snd (run process_run rt)) = is_running rt2"
  using assms by (simp add: run_def is_running_def Let_def)

text \<open>
  C9. The claim: \<open>run\<close> sets \<open>running\<close> before the loop and clears it on normal exit; an
  exception leaving the loop is logged and raised again, and \<open>running\<close> is false when
  \<open>run\<close> exits that way. In the code the assignment \<open>self.share["running"] = False\<close>
  follows the \<open>try\<close> statement, so the \<open>raise\<close> in the \<open>except\<close> clause skips it: when the
  loop raises, the exception is logged and raised again and \<open>running\<close> stays true. On a
  normal exit it is false.
\<close>

theorem run_leaves_running_set_on_exception:
  "fst (run (\<lambda>rt. (Some (RuntimeError ''boom''), rt)) ready) = Some (RuntimeError ''boom'')
   \<and> log (snd (run (\<lambda>rt. (Some (RuntimeError ''boom''), rt)) ready))
       = [Traceback (RuntimeError ''boom'')]
   \<and> is_running (snd (run (\<lambda>rt. (Some (RuntimeError ''boom''), rt)) ready))
       = Some (SBool True)
   \<and> is_running (snd (run (\<lambda>rt. (None, rt)) ready)) = Some (SBool False)"
  by (simp add: run_def ready_def is_running_def)

end
